theory Spec2Isabelle
  imports Complex_Main
begin

section \<open>JavaScript numbers\<close>

text \<open>
  Every number of \<^verbatim>\<open>src/frontend/app.js\<close> is a JavaScript Number. The model keeps
  the three special values of that type (both infinities and NaN), because the
  calculator divides by quantities that can be zero, and takes the finite values as
  exact reals: the rounding of binary64 arithmetic and overflow are not modelled, and
  there is one zero, which divides as \<open>+0\<close> does. The two divisors of the source that
  can be zero are \<open>+0\<close> when they are: \<open>1 - margin / 100\<close> at a margin of 100, and
  the hours per month of an input without negative fields.
\<close>

datatype jsnum = Fin real | PInf | NInf | NaN

fun js_neg :: "jsnum \<Rightarrow> jsnum" where
  "js_neg NaN = NaN"
| "js_neg PInf = NInf"
| "js_neg NInf = PInf"
| "js_neg (Fin a) = Fin (- a)"

fun js_add :: "jsnum \<Rightarrow> jsnum \<Rightarrow> jsnum" where
  "js_add NaN _ = NaN"
| "js_add _ NaN = NaN"
| "js_add PInf NInf = NaN"
| "js_add NInf PInf = NaN"
| "js_add PInf _ = PInf"
| "js_add _ PInf = PInf"
| "js_add NInf _ = NInf"
| "js_add _ NInf = NInf"
| "js_add (Fin a) (Fin b) = Fin (a + b)"

definition js_sub :: "jsnum \<Rightarrow> jsnum \<Rightarrow> jsnum" where
  "js_sub x y = js_add x (js_neg y)"

fun js_mul :: "jsnum \<Rightarrow> jsnum \<Rightarrow> jsnum" where
  "js_mul NaN _ = NaN"
| "js_mul _ NaN = NaN"
| "js_mul PInf PInf = PInf"
| "js_mul PInf NInf = NInf"
| "js_mul NInf PInf = NInf"
| "js_mul NInf NInf = PInf"
| "js_mul PInf (Fin b) = (if b = 0 then NaN else if 0 < b then PInf else NInf)"
| "js_mul NInf (Fin b) = (if b = 0 then NaN else if 0 < b then NInf else PInf)"
| "js_mul (Fin a) PInf = (if a = 0 then NaN else if 0 < a then PInf else NInf)"
| "js_mul (Fin a) NInf = (if a = 0 then NaN else if 0 < a then NInf else PInf)"
| "js_mul (Fin a) (Fin b) = Fin (a * b)"

text \<open>
  Division never throws in JavaScript: a finite nonzero number divided by zero is an
  infinity with the sign of the dividend, and \<open>0 / 0\<close> is NaN.
\<close>

fun js_div :: "jsnum \<Rightarrow> jsnum \<Rightarrow> jsnum" where
  "js_div NaN _ = NaN"
| "js_div _ NaN = NaN"
| "js_div PInf PInf = NaN"
| "js_div PInf NInf = NaN"
| "js_div NInf PInf = NaN"
| "js_div NInf NInf = NaN"
| "js_div PInf (Fin b) = (if b < 0 then NInf else PInf)"
| "js_div NInf (Fin b) = (if b < 0 then PInf else NInf)"
| "js_div (Fin a) PInf = Fin 0"
| "js_div (Fin a) NInf = Fin 0"
| "js_div (Fin a) (Fin b) =
     (if b = 0 then (if a = 0 then NaN else if 0 < a then PInf else NInf)
      else Fin (a / b))"

text \<open>The comparisons \<^verbatim>\<open><=\<close> and \<^verbatim>\<open><\<close>: false as soon as one side is NaN.\<close>

fun js_le :: "jsnum \<Rightarrow> jsnum \<Rightarrow> bool" where
  "js_le NaN _ = False"
| "js_le _ NaN = False"
| "js_le NInf _ = True"
| "js_le _ PInf = True"
| "js_le PInf _ = False"
| "js_le _ NInf = False"
| "js_le (Fin a) (Fin b) = (a \<le> b)"

fun js_lt :: "jsnum \<Rightarrow> jsnum \<Rightarrow> bool" where
  "js_lt NaN _ = False"
| "js_lt _ NaN = False"
| "js_lt PInf _ = False"
| "js_lt _ NInf = False"
| "js_lt NInf _ = True"
| "js_lt _ PInf = True"
| "js_lt (Fin a) (Fin b) = (a < b)"

text \<open>\<^verbatim>\<open>Math.round\<close>: the nearest integer, a tie going up.\<close>

fun js_round :: "jsnum \<Rightarrow> jsnum" where
  "js_round (Fin a) = Fin (of_int \<lfloor>a + 1 / 2\<rfloor>)"
| "js_round x = x"

section \<open>The calculator of \<^verbatim>\<open>src/frontend/app.js\<close>\<close>

text \<open>
  The object that the form handler builds and hands to \<^verbatim>\<open>calculate\<close>. The regime is
  the string value of a select element; the two toggles are the \<^verbatim>\<open>checked\<close> flags.
\<close>

record Input =
  desiredMonthlyIncome :: jsnum
  hoursPerDay :: jsnum
  daysPerWeek :: jsnum
  vacationWeeks :: jsnum
  taxRegime :: string
  include13th :: bool
  includeVacation :: bool
  monthlyExpenses :: jsnum
  variableExpenses :: jsnum
  profitMarginPercentage :: jsnum

text \<open>
  The object literal that \<^verbatim>\<open>calculate\<close> returns. Its field \<^verbatim>\<open>taxRegime\<close> is
  \<open>out_taxRegime\<close> here, the plain name being the input's field.
\<close>

record Output =
  hourlyRate :: jsnum
  dailyRate :: jsnum
  weeklyRate :: jsnum
  monthlyRate :: jsnum
  totalMonthlyCosts :: jsnum
  totalAnnualCosts :: jsnum
  monthlyTaxes :: jsnum
  monthlyProvisions :: jsnum
  netMonthlyIncome :: jsnum
  workingHoursPerMonth :: jsnum
  workingDaysPerMonth :: jsnum
  out_taxRegime :: string
  smallProjectValue :: jsnum
  mediumProjectValue :: jsnum
  largeProjectValue :: jsnum

text \<open>The constructor's constants (\<^verbatim>\<open>this.MEI_DAS_VALUE\<close>, \<^verbatim>\<open>this.MINIMUM_WAGE\<close>).\<close>

definition MEI_DAS_VALUE :: jsnum where
  "MEI_DAS_VALUE = Fin 81.90"

definition MINIMUM_WAGE :: jsnum where
  "MINIMUM_WAGE = Fin 1518.00"

definition calculateProgressiveIR :: "jsnum \<Rightarrow> jsnum" where
  "calculateProgressiveIR monthlyIncome =
     (if js_le monthlyIncome (Fin 2259.20) then Fin 0
      else if js_le monthlyIncome (Fin 2828.65) then
        js_sub (js_mul monthlyIncome (Fin 0.075)) (Fin 169.44)
      else if js_le monthlyIncome (Fin 3751.05) then
        js_sub (js_mul monthlyIncome (Fin 0.15)) (Fin 381.44)
      else if js_le monthlyIncome (Fin 4664.68) then
        js_sub (js_mul monthlyIncome (Fin 0.225)) (Fin 662.77)
      else
        js_sub (js_mul monthlyIncome (Fin 0.275)) (Fin 896.00))"

text \<open>The \<^verbatim>\<open>switch\<close> on the regime string, its \<^verbatim>\<open>default\<close> branch last.\<close>

definition calculateMonthlyTaxes :: "jsnum \<Rightarrow> string \<Rightarrow> jsnum" where
  "calculateMonthlyTaxes monthlyIncome regime =
     (if regime = ''MEI'' then MEI_DAS_VALUE
      else if regime = ''PJ_SIMPLES'' then js_mul monthlyIncome (Fin 0.06)
      else if regime = ''PJ_PRESUMIDO'' then js_mul monthlyIncome (Fin 0.1633)
      else if regime = ''AUTONOMO'' then
        (let inss = js_mul MINIMUM_WAGE (Fin 0.20);
             ir = calculateProgressiveIR monthlyIncome
         in js_add inss ir)
      else Fin 0)"

text \<open>
  \<^verbatim>\<open>calculate\<close>, step by step as the source numbers them. A local whose name is also
  a field of the result carries a prime, and the variable \<^verbatim>\<open>monthlyProvisions\<close>, which
  the source updates twice with \<^verbatim>\<open>+=\<close>, is \<open>provisions0\<close>, \<open>provisions1\<close> and then
  \<open>monthlyProvisions'\<close>.
\<close>

definition calculate :: "Input \<Rightarrow> Output" where
  "calculate input =
     (let workingDaysPerWeek = daysPerWeek input;
          workingWeeksPerYear = js_sub (Fin 52) (vacationWeeks input);
          workingDaysPerYear = js_mul workingDaysPerWeek workingWeeksPerYear;
          workingDaysPerMonth' = js_div workingDaysPerYear (Fin 12);
          workingHoursPerDay = hoursPerDay input;
          workingHoursPerMonth' = js_mul workingHoursPerDay workingDaysPerMonth';
          monthlyTaxes' = calculateMonthlyTaxes (desiredMonthlyIncome input) (taxRegime input);
          provisions0 = Fin 0;
          provisions1 = (if include13th input
             then js_add provisions0 (js_div (desiredMonthlyIncome input) (Fin 12))
             else provisions0);
          monthlyProvisions' = (if includeVacation input
             then js_add provisions1 (js_div (js_div (desiredMonthlyIncome input) (Fin 3)) (Fin 12))
             else provisions1);
          totalMonthlyCosts' =
            js_add (js_add (js_add (js_add (desiredMonthlyIncome input) monthlyTaxes')
              monthlyProvisions') (monthlyExpenses input)) (variableExpenses input);
          profitMargin = js_div (profitMarginPercentage input) (Fin 100);
          totalMonthlyRate = js_div totalMonthlyCosts' (js_sub (Fin 1) profitMargin);
          hourlyRate' = js_div totalMonthlyRate workingHoursPerMonth';
          dailyRate' = js_mul hourlyRate' workingHoursPerDay;
          weeklyRate' = js_mul dailyRate' workingDaysPerWeek;
          smallProjectValue' = js_mul hourlyRate' (Fin 30);
          mediumProjectValue' = js_mul hourlyRate' (Fin 100);
          largeProjectValue' = js_mul hourlyRate' (Fin 200)
      in \<lparr> hourlyRate = hourlyRate',
           dailyRate = dailyRate',
           weeklyRate = weeklyRate',
           monthlyRate = totalMonthlyRate,
           totalMonthlyCosts = totalMonthlyCosts',
           totalAnnualCosts = js_mul totalMonthlyCosts' (Fin 12),
           monthlyTaxes = monthlyTaxes',
           monthlyProvisions = monthlyProvisions',
           netMonthlyIncome = desiredMonthlyIncome input,
           workingHoursPerMonth = js_round workingHoursPerMonth',
           workingDaysPerMonth = js_round workingDaysPerMonth',
           out_taxRegime = taxRegime input,
           smallProjectValue = smallProjectValue',
           mediumProjectValue = mediumProjectValue',
           largeProjectValue = largeProjectValue' \<rparr>)"

section \<open>What a caller of \<^verbatim>\<open>calculate\<close> observes\<close>

text \<open>
  Neither \<^verbatim>\<open>calculate\<close> nor the two tax functions contain a \<^verbatim>\<open>throw\<close>, a check of
  the input or an early return, and arithmetic on Numbers never throws: a call always
  completes with the object built at its end. The outcome type has the error of the
  specification's taxonomy as its other side.
\<close>

datatype error = InvalidInput

definition calculate_outcome :: "Input \<Rightarrow> error + Output" where
  "calculate_outcome input = Inr (calculate input)"

text \<open>Step 1 of \<^verbatim>\<open>calculate\<close> before \<^verbatim>\<open>Math.round\<close>: the divisor of the hourly rate.\<close>

definition unroundedHoursPerMonth :: "Input \<Rightarrow> jsnum" where
  "unroundedHoursPerMonth input =
     js_mul (hoursPerDay input)
       (js_div (js_mul (daysPerWeek input) (js_sub (Fin 52) (vacationWeeks input))) (Fin 12))"

section \<open>The inputs the specification calls valid\<close>

text \<open>
  The data model of the specification: a non-negative income and expenses, a positive
  whole number of hours, one to seven days a week, zero to 52 weeks of vacation, one
  of the four regimes and a margin in \<open>[0, 100)\<close>. The source checks none of it.
\<close>

fun is_nonneg :: "jsnum \<Rightarrow> bool" where
  "is_nonneg (Fin a) = (0 \<le> a)"
| "is_nonneg _ = False"

fun is_integer_from :: "int \<Rightarrow> jsnum \<Rightarrow> bool" where
  "is_integer_from lo (Fin a) = (a = of_int \<lfloor>a\<rfloor> \<and> of_int lo \<le> a)"
| "is_integer_from lo _ = False"

fun is_integer_in :: "int \<Rightarrow> int \<Rightarrow> jsnum \<Rightarrow> bool" where
  "is_integer_in lo hi (Fin a) = (a = of_int \<lfloor>a\<rfloor> \<and> of_int lo \<le> a \<and> a \<le> of_int hi)"
| "is_integer_in lo hi _ = False"

fun is_margin :: "jsnum \<Rightarrow> bool" where
  "is_margin (Fin m) = (0 \<le> m \<and> m < 100)"
| "is_margin _ = False"

definition regimes :: "string list" where
  "regimes = [''MEI'', ''PJ_SIMPLES'', ''PJ_PRESUMIDO'', ''AUTONOMO'']"

definition valid_input :: "Input \<Rightarrow> bool" where
  "valid_input input \<longleftrightarrow>
     is_nonneg (desiredMonthlyIncome input) \<and>
     is_integer_from 1 (hoursPerDay input) \<and>
     is_integer_in 1 7 (daysPerWeek input) \<and>
     is_integer_in 0 52 (vacationWeeks input) \<and>
     taxRegime input \<in> set regimes \<and>
     is_nonneg (monthlyExpenses input) \<and>
     is_nonneg (variableExpenses input) \<and>
     is_margin (profitMarginPercentage input)"

section \<open>The bracket table as the specification words it\<close>

text \<open>
  The specification gives the progressive income tax as a table of rows (inclusive upper
  bound, rate, deduction) read from the lowest bound upwards, the first row whose bound
  admits the income giving \<open>income \<times> rate \<minus> deduction\<close>, and a last row without a
  bound. This is that reading, to be compared with \<open>calculateProgressiveIR\<close>.
\<close>

fun bracket_lookup :: "(real \<times> real \<times> real) list \<Rightarrow> real \<times> real \<Rightarrow> real \<Rightarrow> real" where
  "bracket_lookup [] (rate, deduction) income = income * rate - deduction"
| "bracket_lookup ((bound, rate, deduction) # rest) unbounded income =
     (if income \<le> bound then income * rate - deduction
      else bracket_lookup rest unbounded income)"

definition spec_brackets :: "(real \<times> real \<times> real) list" where
  "spec_brackets =
     [(2259.20, 0, 0), (2828.65, 0.075, 169.44), (3751.05, 0.15, 381.44),
      (4664.68, 0.225, 662.77)]"

definition spec_progressiveIR :: "real \<Rightarrow> real" where
  "spec_progressiveIR income = bracket_lookup spec_brackets (0.275, 896.00) income"

definition spec_autonomo_tax :: "real \<Rightarrow> real" where
  "spec_autonomo_tax income = 1518.00 * 0.20 + spec_progressiveIR income"

text \<open>The tax rule table of the specification, one row for each of the four regimes.\<close>

definition spec_monthlyTaxes :: "string \<Rightarrow> real \<Rightarrow> real" where
  "spec_monthlyTaxes regime income =
     (if regime = ''MEI'' then 81.90
      else if regime = ''PJ_SIMPLES'' then income * 0.06
      else if regime = ''PJ_PRESUMIDO'' then income * 0.1633
      else spec_autonomo_tax income)"

section \<open>Concrete inputs\<close>

text \<open>The first concrete scenario of the specification's testable properties.\<close>

definition scenario_MEI :: Input where
  "scenario_MEI =
     \<lparr> desiredMonthlyIncome = Fin 3000, hoursPerDay = Fin 6, daysPerWeek = Fin 5,
       vacationWeeks = Fin 4, taxRegime = ''MEI'', include13th = False,
       includeVacation = False, monthlyExpenses = Fin 200, variableExpenses = Fin 0,
       profitMarginPercentage = Fin 20 \<rparr>"

text \<open>A finite number within a cent-rounding distance of a decimal.\<close>

fun near :: "jsnum \<Rightarrow> real \<Rightarrow> real \<Rightarrow> bool" where
  "near (Fin a) d eps = (\<bar>a - d\<bar> < eps)"
| "near _ d eps = False"

text \<open>The scenario with the margin at 100 percent.\<close>

definition margin_100_input :: Input where
  "margin_100_input = scenario_MEI\<lparr>profitMarginPercentage := Fin 100\<rparr>"

text \<open>The scenario with a regime string outside the four.\<close>

definition unknown_regime_input :: Input where
  "unknown_regime_input = scenario_MEI\<lparr>taxRegime := ''CLT''\<rparr>"

text \<open>
  Eight hours a day and no vacation: \<open>8 \<times> (5 \<times> 52 / 12)\<close> is 173 and a third hours a
  month, which the result rounds to 173.
\<close>

definition fractional_hours_input :: Input where
  "fractional_hours_input = scenario_MEI\<lparr>hoursPerDay := Fin 8, vacationWeeks := Fin 0\<rparr>"

text \<open>Two incomes a hundredth of a cent apart, on either side of the bound 3751.05.\<close>

definition below_bound_input :: Input where
  "below_bound_input =
     scenario_MEI\<lparr>taxRegime := ''AUTONOMO'', desiredMonthlyIncome := Fin 3751.05\<rparr>"

definition above_bound_input :: Input where
  "above_bound_input = below_bound_input\<lparr>desiredMonthlyIncome := Fin 3751.0501\<rparr>"

text \<open>
  Two numbers that \<^verbatim>\<open>==\<close> holds of, or finite ones within a relative tolerance of the
  second.
\<close>

fun rel_close :: "jsnum \<Rightarrow> jsnum \<Rightarrow> real \<Rightarrow> bool" where
  "rel_close (Fin a) (Fin b) tol = (\<bar>a - b\<bar> \<le> tol * \<bar>b\<bar>)"
| "rel_close PInf PInf tol = True"
| "rel_close NInf NInf tol = True"
| "rel_close _ _ tol = False"

section \<open>The scenario, the rates and the echoed fields\<close>

text \<open>
  C1. The first scenario of the specification (income 3000, six hours a day, five days a
  week, four weeks of vacation, MEI, no provisions, fixed expenses 200, margin 20):
  120 hours and 20 days a month, taxes 81.90, total monthly costs 3281.90, monthly rate
  4102.375, and an hourly rate that rounds to 34.19.
\<close>

theorem C1_scenario:
  "workingHoursPerMonth (calculate scenario_MEI) = Fin 120 \<and>
   workingDaysPerMonth (calculate scenario_MEI) = Fin 20 \<and>
   monthlyTaxes (calculate scenario_MEI) = Fin 81.90 \<and>
   totalMonthlyCosts (calculate scenario_MEI) = Fin 3281.90 \<and>
   monthlyRate (calculate scenario_MEI) = Fin 4102.375 \<and>
   near (hourlyRate (calculate scenario_MEI)) 34.19 0.005"
  by (simp add: calculate_def Let_def scenario_MEI_def calculateMonthlyTaxes_def
      MEI_DAS_VALUE_def js_sub_def)

text \<open>
  C9. The daily rate is the hourly rate times the hours per day, and the weekly rate is
  the daily rate times the days per week, as the very same values: each is built by that
  one multiplication. It holds for every input, valid or not.
\<close>

theorem C9_daily_weekly_by_construction:
  "dailyRate (calculate input) = js_mul (hourlyRate (calculate input)) (hoursPerDay input) \<and>
   weeklyRate (calculate input) = js_mul (dailyRate (calculate input)) (daysPerWeek input)"
  by (simp add: calculate_def Let_def)

text \<open>
  C8. Under the MEI regime the monthly tax is the constant 81.90 whatever the income:
  the branch returns \<^verbatim>\<open>MEI_DAS_VALUE\<close> without reading its first argument. It holds
  for every number, so in particular for every income \<open>x \<ge> 0\<close>.
\<close>

theorem C8_mei_tax_constant: "calculateMonthlyTaxes x ''MEI'' = Fin 81.90"
  by (simp add: calculateMonthlyTaxes_def MEI_DAS_VALUE_def)

text \<open>
  C10. The result echoes two fields of the input unchanged: \<open>netMonthlyIncome\<close> is the
  input's \<open>desiredMonthlyIncome\<close> and the result's regime is the input's regime.
\<close>

theorem C10_echo_fields:
  "netMonthlyIncome (calculate input) = desiredMonthlyIncome input \<and>
   out_taxRegime (calculate input) = taxRegime input"
  by (simp add: calculate_def Let_def)

section \<open>The source against the specification's tables\<close>

text \<open>
  On finite numbers the chain of comparisons in \<^verbatim>\<open>calculateProgressiveIR\<close> reads the
  bracket table from its lowest bound upwards, and the \<^verbatim>\<open>switch\<close> is the tax rule
  table.
\<close>

lemma is_nonneg_Fin: "is_nonneg n \<Longrightarrow> \<exists>a. n = Fin a \<and> 0 \<le> a"
  by (cases n) simp_all

lemma is_integer_from_Fin: "is_integer_from lo n \<Longrightarrow> \<exists>a. n = Fin a \<and> of_int lo \<le> a"
  by (cases n) simp_all

lemma is_integer_in_Fin: "is_integer_in lo hi n \<Longrightarrow> \<exists>a. n = Fin a \<and> of_int lo \<le> a \<and> a \<le> of_int hi"
  by (cases n) simp_all

lemma is_margin_Fin: "is_margin n \<Longrightarrow> \<exists>m. n = Fin m \<and> 0 \<le> m \<and> m < 100"
  by (cases n) simp_all

lemma spec_progressiveIR_unfold:
  "spec_progressiveIR x =
     (if x \<le> 2259.20 then 0
      else if x \<le> 2828.65 then x * 0.075 - 169.44
      else if x \<le> 3751.05 then x * 0.15 - 381.44
      else if x \<le> 4664.68 then x * 0.225 - 662.77
      else x * 0.275 - 896.00)"
  by (simp add: spec_progressiveIR_def spec_brackets_def)

lemma progressiveIR_refines:
  "calculateProgressiveIR (Fin x) = Fin (spec_progressiveIR x)"
  by (simp add: calculateProgressiveIR_def js_sub_def spec_progressiveIR_unfold)

lemma regimes_cases:
  assumes "r \<in> set regimes"
  obtains "r = ''MEI''" | "r = ''PJ_SIMPLES''" | "r = ''PJ_PRESUMIDO''" | "r = ''AUTONOMO''"
  using assms by (auto simp: regimes_def)

lemma monthlyTaxes_refines:
  assumes "r \<in> set regimes"
  shows "calculateMonthlyTaxes (Fin x) r = Fin (spec_monthlyTaxes r x)"
  using assms
  by (cases rule: regimes_cases)
    (simp_all add: calculateMonthlyTaxes_def spec_monthlyTaxes_def MEI_DAS_VALUE_def
      MINIMUM_WAGE_def progressiveIR_refines spec_autonomo_tax_def)

lemma spec_progressiveIR_nonneg: "0 \<le> spec_progressiveIR x"
  by (simp add: spec_progressiveIR_unfold)

text \<open>
  Income plus income tax grows with the income, except across the bound 3751.05, where
  the tax drops by 0.00125: there it takes a step of at least that much.
\<close>

lemma spec_progressiveIR_mono:
  assumes "x \<le> y" and "\<not> (x \<le> 3751.05 \<and> 3751.05 < y) \<or> 0.00125 \<le> y - x"
  shows "x + spec_progressiveIR x \<le> y + spec_progressiveIR y"
  using assms by (auto simp: spec_progressiveIR_unfold split: if_splits)

lemma spec_monthlyTaxes_nonneg:
  assumes "0 \<le> x"
  shows "0 \<le> spec_monthlyTaxes r x"
  using assms spec_progressiveIR_nonneg [of x]
  by (simp add: spec_monthlyTaxes_def spec_autonomo_tax_def)

lemma spec_monthlyTaxes_mono:
  assumes "x \<le> y"
    and "r \<noteq> ''AUTONOMO'' \<or> \<not> (x \<le> 3751.05 \<and> 3751.05 < y) \<or> 0.00125 \<le> y - x"
    and "r \<in> set regimes"
  shows "x + spec_monthlyTaxes r x \<le> y + spec_monthlyTaxes r y"
  using assms(3)
proof (cases rule: regimes_cases)
  case 4
  with assms(2) have "\<not> (x \<le> 3751.05 \<and> 3751.05 < y) \<or> 0.00125 \<le> y - x" by blast
  from spec_progressiveIR_mono [OF assms(1) this] 4 show ?thesis
    by (simp add: spec_monthlyTaxes_def spec_autonomo_tax_def)
qed (use assms(1) in \<open>simp_all add: spec_monthlyTaxes_def\<close>)

section \<open>The result on finite inputs\<close>

text \<open>
  With finite fields, a margin other than 100 and a finite tax, the monthly rate is a
  finite quotient, and the hourly rate is that rate divided by the unrounded hours.
\<close>

lemma calculate_finite:
  assumes "desiredMonthlyIncome i = Fin x" and "hoursPerDay i = Fin h"
    and "daysPerWeek i = Fin d" and "vacationWeeks i = Fin v"
    and "monthlyExpenses i = Fin e1" and "variableExpenses i = Fin e2"
    and "profitMarginPercentage i = Fin m" and "m \<noteq> 100"
    and "calculateMonthlyTaxes (Fin x) (taxRegime i) = Fin t"
  shows "monthlyRate (calculate i) =
      Fin ((x + t + ((if include13th i then x / 12 else 0) + (if includeVacation i then x / 3 / 12 else 0))
        + e1 + e2) / (1 - m / 100))"
    and "hourlyRate (calculate i) = js_div (monthlyRate (calculate i)) (unroundedHoursPerMonth i)"
    and "unroundedHoursPerMonth i = Fin (h * (d * (52 - v) / 12))"
    and "workingHoursPerMonth (calculate i) = js_round (unroundedHoursPerMonth i)"
  using assms by (simp_all add: calculate_def Let_def js_sub_def unroundedHoursPerMonth_def)

lemma valid_input_fields:
  assumes "valid_input i"
  obtains x h d v e1 e2 m where
    "desiredMonthlyIncome i = Fin x" "0 \<le> x" "hoursPerDay i = Fin h" "1 \<le> h"
    "daysPerWeek i = Fin d" "1 \<le> d" "vacationWeeks i = Fin v" "v \<le> 52"
    "monthlyExpenses i = Fin e1" "0 \<le> e1" "variableExpenses i = Fin e2" "0 \<le> e2"
    "profitMarginPercentage i = Fin m" "0 \<le> m" "m < 100" "taxRegime i \<in> set regimes"
proof -
  from assms obtain x where x: "desiredMonthlyIncome i = Fin x" "0 \<le> x"
    unfolding valid_input_def using is_nonneg_Fin by blast
  from assms obtain h where h: "hoursPerDay i = Fin h" "1 \<le> h"
    unfolding valid_input_def using is_integer_from_Fin [of 1 "hoursPerDay i"] by auto
  from assms obtain d where d: "daysPerWeek i = Fin d" "1 \<le> d"
    unfolding valid_input_def using is_integer_in_Fin [of 1 7 "daysPerWeek i"] by auto
  from assms obtain v where v: "vacationWeeks i = Fin v" "v \<le> 52"
    unfolding valid_input_def using is_integer_in_Fin [of 0 52 "vacationWeeks i"] by auto
  from assms obtain e1 where e1: "monthlyExpenses i = Fin e1" "0 \<le> e1"
    unfolding valid_input_def using is_nonneg_Fin by blast
  from assms obtain e2 where e2: "variableExpenses i = Fin e2" "0 \<le> e2"
    unfolding valid_input_def using is_nonneg_Fin by blast
  from assms obtain m where m: "profitMarginPercentage i = Fin m" "0 \<le> m" "m < 100"
    unfolding valid_input_def using is_margin_Fin by blast
  from assms have "taxRegime i \<in> set regimes"
    by (simp add: valid_input_def)
  with x h d v e1 e2 m that show thesis by blast
qed

text \<open>
  The three bounds other than 2828.65: the tax a cent above the bound is within a cent
  of the tax at the bound.
\<close>

lemma progressiveIR_other_bounds:
  "near (calculateProgressiveIR (Fin 2259.21)) (spec_progressiveIR 2259.20) 0.01 \<and>
   near (calculateProgressiveIR (Fin 3751.06)) (spec_progressiveIR 3751.05) 0.01 \<and>
   near (calculateProgressiveIR (Fin 4664.69)) (spec_progressiveIR 4664.68) 0.01"
  by (simp add: progressiveIR_refines spec_progressiveIR_unfold)

section \<open>The margin, the regimes, the brackets and the hours\<close>

text \<open>
  C2, as stated, fails. With the margin at 100 the call completes, reports no error, and
  the monthly and hourly rates of the result are \<open>+Infinity\<close>.
\<close>

theorem C2_margin_100_counterexample:
  "calculate_outcome margin_100_input \<noteq> Inl InvalidInput \<and>
   monthlyRate (calculate margin_100_input) = PInf \<and>
   hourlyRate (calculate margin_100_input) = PInf"
  by (simp add: calculate_outcome_def margin_100_input_def calculate_def Let_def scenario_MEI_def
      calculateMonthlyTaxes_def MEI_DAS_VALUE_def js_sub_def)

text \<open>
  C2, amended. \<^verbatim>\<open>calculate\<close> does not check the margin: the call always returns a
  result. With a margin of exactly 100 and finite total monthly costs \<open>c\<close> the monthly
  rate is \<open>c / 0\<close>, that is \<open>+Infinity\<close> for positive costs, NaN for zero costs and
  \<open>-Infinity\<close> for negative ones; with a margin \<open>m\<close> above 100 it is the finite
  quotient \<open>c / (1 - m / 100)\<close>, of the sign opposite to the costs'.
\<close>

theorem C2_margin_unchecked:
  assumes "profitMarginPercentage input = Fin m" and "100 \<le> m"
    and "totalMonthlyCosts (calculate input) = Fin c"
  shows "calculate_outcome input = Inr (calculate input) \<and>
    monthlyRate (calculate input) =
      (if m = 100 then (if c = 0 then NaN else if 0 < c then PInf else NInf)
       else Fin (c / (1 - m / 100)))"
  using assms by (simp add: calculate_outcome_def calculate_def Let_def js_sub_def)

text \<open>The amended C2 at the scenario with the margin at 100.\<close>

theorem C2_margin_unchecked_witness:
  "profitMarginPercentage margin_100_input = Fin 100 \<and> (100::real) \<le> 100 \<and>
   totalMonthlyCosts (calculate margin_100_input) = Fin 3281.90 \<and>
   calculate_outcome margin_100_input = Inr (calculate margin_100_input) \<and>
   monthlyRate (calculate margin_100_input) = PInf"
proof -
  have m: "profitMarginPercentage margin_100_input = Fin 100"
    by (simp add: margin_100_input_def)
  have c: "totalMonthlyCosts (calculate margin_100_input) = Fin 3281.90"
    by (simp add: margin_100_input_def calculate_def Let_def scenario_MEI_def
      calculateMonthlyTaxes_def MEI_DAS_VALUE_def)
  show ?thesis using C2_margin_unchecked [OF m _ c] m c by simp
qed

text \<open>
  C3. The progressive tax is not continuous within a cent at the bound 2828.65: at the
  bound it is 42.70875, one cent above it is 42.859, about fifteen cents more. (The 7.5
  and 15 percent lines with deductions 169.44 and 381.44 meet near 2826.67, not at the
  bound the source compares with.)
\<close>

theorem C3_jump_at_2828_65:
  "calculateProgressiveIR (Fin 2828.65) = Fin 42.70875 \<and>
   calculateProgressiveIR (Fin 2828.66) = Fin 42.859 \<and>
   \<not> near (calculateProgressiveIR (Fin 2828.66)) 42.70875 0.01"
  by (simp add: calculateProgressiveIR_def js_sub_def)

text \<open>
  C4. For every income \<open>x \<ge> 0\<close> the AUTONOMO tax is a fifth of the minimum wage plus
  the progressive tax of the bracket table read from the lowest bound upwards; an income
  of 2000 gives 303.60 and an income of 3000 gives 372.16.
\<close>

theorem C4_autonomo_tax:
  "(\<forall>x. 0 \<le> x \<longrightarrow> calculateMonthlyTaxes (Fin x) ''AUTONOMO'' = Fin (spec_autonomo_tax x)) \<and>
   calculateMonthlyTaxes (Fin 2000) ''AUTONOMO'' = Fin 303.60 \<and>
   calculateMonthlyTaxes (Fin 3000) ''AUTONOMO'' = Fin 372.16"
  by (simp add: calculateMonthlyTaxes_def calculateProgressiveIR_def MINIMUM_WAGE_def
      js_sub_def spec_autonomo_tax_def spec_progressiveIR_def spec_brackets_def)

text \<open>C4 at the income 4000, in the fourth bracket.\<close>

theorem C4_autonomo_tax_witness:
  "(0::real) \<le> 4000 \<and> calculateMonthlyTaxes (Fin 4000) ''AUTONOMO'' = Fin 540.83"
  using C4_autonomo_tax [THEN conjunct1, rule_format, of 4000]
  by (simp add: spec_autonomo_tax_def spec_progressiveIR_def spec_brackets_def)

text \<open>
  C5, as stated, fails. Two valid inputs that differ only in the income, 3751.05 and
  3751.0501 under AUTONOMO: the larger income has the strictly smaller hourly rate.
\<close>

theorem C5_bracket_drop_counterexample:
  "valid_input below_bound_input \<and> valid_input above_bound_input \<and>
   above_bound_input = below_bound_input\<lparr>desiredMonthlyIncome := Fin 3751.0501\<rparr> \<and>
   js_lt (desiredMonthlyIncome below_bound_input) (desiredMonthlyIncome above_bound_input) \<and>
   js_lt (hourlyRate (calculate above_bound_input)) (hourlyRate (calculate below_bound_input))"
  by (simp add: valid_input_def regimes_def above_bound_input_def below_bound_input_def calculate_def Let_def scenario_MEI_def
      calculateMonthlyTaxes_def calculateProgressiveIR_def MINIMUM_WAGE_def js_sub_def)

text \<open>
  C5, amended. For a valid input with income \<open>x\<close> and a larger income \<open>y\<close>, all else
  fixed, the hourly rate for \<open>y\<close> is not strictly smaller than the one for \<open>x\<close>,
  provided the regime is not AUTONOMO, or the two incomes are not on opposite sides of
  the bracket bound 3751.05, or they differ by at least 0.00125 (so for any two incomes
  in whole cents).
\<close>

theorem C5_hourly_rate_monotone:
  assumes "valid_input input" and "desiredMonthlyIncome input = Fin x" and "x \<le> y"
    and "taxRegime input \<noteq> ''AUTONOMO'' \<or> \<not> (x \<le> 3751.05 \<and> 3751.05 < y) \<or> 0.00125 \<le> y - x"
  shows "valid_input (input\<lparr>desiredMonthlyIncome := Fin y\<rparr>) \<and>
    \<not> js_lt (hourlyRate (calculate (input\<lparr>desiredMonthlyIncome := Fin y\<rparr>)))
            (hourlyRate (calculate input))"
proof -
  let ?hi = "input\<lparr>desiredMonthlyIncome := Fin y\<rparr>"
  let ?r = "taxRegime input"
  from assms(1) obtain x' h d v e1 e2 m where f:
    "desiredMonthlyIncome input = Fin x'" "0 \<le> x'" "hoursPerDay input = Fin h" "1 \<le> h"
    "daysPerWeek input = Fin d" "1 \<le> d" "vacationWeeks input = Fin v" "v \<le> 52"
    "monthlyExpenses input = Fin e1" "0 \<le> e1" "variableExpenses input = Fin e2" "0 \<le> e2"
    "profitMarginPercentage input = Fin m" "0 \<le> m" "m < 100" "taxRegime input \<in> set regimes"
    by (rule valid_input_fields)
  from f(1) assms(2) have x': "x' = x" by simp
  from f(2) x' assms(3) have x0: "0 \<le> x" and y0: "0 \<le> y" by simp_all
  from assms(1) y0 have valid_hi: "valid_input ?hi"
    by (simp add: valid_input_def)
  from f(15) have m: "m \<noteq> 100" and pos: "0 < 1 - m / 100" by simp_all
  have tx: "calculateMonthlyTaxes (Fin x) (taxRegime input) = Fin (spec_monthlyTaxes ?r x)"
    using f(16) by (rule monthlyTaxes_refines)
  have ty: "calculateMonthlyTaxes (Fin y) (taxRegime ?hi) = Fin (spec_monthlyTaxes ?r y)"
    using f(16) by (simp add: monthlyTaxes_refines)
  note lo = calculate_finite [OF assms(2) f(3,5,7,9,11,13) m tx]
  have hi: "monthlyRate (calculate ?hi) =
      Fin ((y + spec_monthlyTaxes ?r y
        + ((if include13th input then y / 12 else 0) + (if includeVacation input then y / 3 / 12 else 0))
        + e1 + e2) / (1 - m / 100))"
    "hourlyRate (calculate ?hi) = js_div (monthlyRate (calculate ?hi)) (unroundedHoursPerMonth ?hi)"
    "unroundedHoursPerMonth ?hi = Fin (h * (d * (52 - v) / 12))"
    using calculate_finite [of ?hi y h d v e1 e2 m "spec_monthlyTaxes ?r y"] f(3,5,7,9,11,13) m ty
    by simp_all
  define cx where "cx = x + spec_monthlyTaxes ?r x
    + ((if include13th input then x / 12 else 0) + (if includeVacation input then x / 3 / 12 else 0)) + e1 + e2"
  define cy where "cy = y + spec_monthlyTaxes ?r y
    + ((if include13th input then y / 12 else 0) + (if includeVacation input then y / 3 / 12 else 0)) + e1 + e2"
  define w where "w = h * (d * (52 - v) / 12)"
  have "x + spec_monthlyTaxes ?r x \<le> y + spec_monthlyTaxes ?r y"
    using assms(3,4) f(16) by (rule spec_monthlyTaxes_mono)
  with assms(3) have cost: "cx \<le> cy"
    by (simp add: cx_def cy_def)
  with pos have rate: "cx / (1 - m / 100) \<le> cy / (1 - m / 100)"
    by (simp add: divide_right_mono)
  from f(4,6,8) have w0: "0 \<le> w" by (simp add: w_def)
  have hx: "hourlyRate (calculate input) = js_div (Fin (cx / (1 - m / 100))) (Fin w)"
    by (simp add: lo(1,2,3) cx_def w_def)
  have hy: "hourlyRate (calculate ?hi) = js_div (Fin (cy / (1 - m / 100))) (Fin w)"
    by (simp add: hi cy_def w_def)
  have "\<not> js_lt (js_div (Fin (cy / (1 - m / 100))) (Fin w)) (js_div (Fin (cx / (1 - m / 100))) (Fin w))"
  proof (cases "w = 0")
    case True
    with rate show ?thesis by simp
  next
    case False
    with w0 have "0 < w" by simp
    from rate w0 have "cx / (1 - m / 100) / w \<le> cy / (1 - m / 100) / w"
      by (rule divide_right_mono)
    with False show ?thesis by simp
  qed
  with valid_hi show ?thesis by (simp only: hx hy simp_thms)
qed

text \<open>The amended C5 across the bound 3751.05, the incomes one cent apart.\<close>

theorem C5_hourly_rate_monotone_witness:
  "valid_input below_bound_input \<and>
   desiredMonthlyIncome below_bound_input = Fin 3751.05 \<and> (3751.05::real) \<le> 3751.06 \<and>
   (0.00125::real) \<le> 3751.06 - 3751.05 \<and>
   \<not> js_lt (hourlyRate (calculate (below_bound_input\<lparr>desiredMonthlyIncome := Fin 3751.06\<rparr>)))
          (hourlyRate (calculate below_bound_input))"
proof -
  have v: "valid_input below_bound_input"
    by (simp add: valid_input_def regimes_def below_bound_input_def scenario_MEI_def)
  have x: "desiredMonthlyIncome below_bound_input = Fin 3751.05"
    by (simp add: below_bound_input_def)
  have le: "(3751.05::real) \<le> 3751.06" by simp
  have step: "(0.00125::real) \<le> 3751.06 - 3751.05" by simp
  then have side: "taxRegime below_bound_input \<noteq> ''AUTONOMO'' \<or>
      \<not> ((3751.05::real) \<le> 3751.05 \<and> (3751.05::real) < 3751.06) \<or>
      (0.00125::real) \<le> 3751.06 - 3751.05"
    by blast
  from C5_hourly_rate_monotone [OF v x le side] v x le step show ?thesis by blast
qed

text \<open>
  C6, as stated, fails. With the regime string \<open>CLT\<close> the call completes, reports no
  error, and the result has taxes 0 and a monthly rate of 4000.
\<close>

theorem C6_unknown_regime_counterexample:
  "taxRegime unknown_regime_input \<notin> set regimes \<and>
   calculate_outcome unknown_regime_input \<noteq> Inl InvalidInput \<and>
   monthlyTaxes (calculate unknown_regime_input) = Fin 0 \<and>
   monthlyRate (calculate unknown_regime_input) = Fin 4000"
  by (simp add: calculate_outcome_def unknown_regime_input_def calculate_def Let_def scenario_MEI_def
      calculateMonthlyTaxes_def regimes_def js_sub_def)

text \<open>
  C6, amended. For a regime outside the four, \<^verbatim>\<open>calculate\<close> reports no error: the
  \<^verbatim>\<open>default\<close> branch of the switch gives the tax 0, and the call returns a result
  whose \<open>monthlyTaxes\<close> is 0.
\<close>

theorem C6_unknown_regime_tax_zero:
  assumes "taxRegime input \<notin> set regimes"
  shows "calculate_outcome input = Inr (calculate input) \<and>
    monthlyTaxes (calculate input) = Fin 0"
  using assms by (simp add: calculate_outcome_def calculate_def Let_def calculateMonthlyTaxes_def regimes_def)

text \<open>The amended C6 at the regime string \<open>CLT\<close>.\<close>

theorem C6_unknown_regime_tax_zero_witness:
  "taxRegime unknown_regime_input \<notin> set regimes \<and>
   calculate_outcome unknown_regime_input = Inr (calculate unknown_regime_input) \<and>
   monthlyTaxes (calculate unknown_regime_input) = Fin 0"
proof -
  have r: "taxRegime unknown_regime_input \<notin> set regimes"
    by (simp add: unknown_regime_input_def scenario_MEI_def regimes_def)
  show ?thesis using C6_unknown_regime_tax_zero [OF r] r by simp
qed

text \<open>
  C7, as stated, fails. At a valid input with 173 and a third hours a month the result
  carries 173 hours, and the hourly rate times 173 is not within a millionth of the
  monthly rate.
\<close>

theorem C7_rounded_hours_counterexample:
  "valid_input fractional_hours_input \<and>
   workingHoursPerMonth (calculate fractional_hours_input) = Fin 173 \<and>
   \<not> rel_close (js_mul (hourlyRate (calculate fractional_hours_input))
        (workingHoursPerMonth (calculate fractional_hours_input)))
      (monthlyRate (calculate fractional_hours_input)) (1 / 10 ^ 6)"
  by (simp add: valid_input_def regimes_def fractional_hours_input_def calculate_def Let_def scenario_MEI_def
      calculateMonthlyTaxes_def MEI_DAS_VALUE_def js_sub_def)

text \<open>
  C7, amended. For every valid input with fewer than 52 weeks of vacation, the hourly
  rate times the unrounded hours per month (hours per day times days per week times
  working weeks over 12) is the monthly rate; the \<open>workingHoursPerMonth\<close> of the result
  is that quantity rounded to the nearest integer, so the identity holds for the
  result's field whenever the quantity is a whole number.
\<close>

theorem C7_unrounded_hours:
  assumes "valid_input input" and "vacationWeeks input \<noteq> Fin 52"
  shows "workingHoursPerMonth (calculate input) = js_round (unroundedHoursPerMonth input) \<and>
    js_mul (hourlyRate (calculate input)) (unroundedHoursPerMonth input) = monthlyRate (calculate input) \<and>
    (js_round (unroundedHoursPerMonth input) = unroundedHoursPerMonth input \<longrightarrow>
       js_mul (hourlyRate (calculate input)) (workingHoursPerMonth (calculate input))
         = monthlyRate (calculate input))"
proof -
  from assms(1) obtain x h d v e1 e2 m where f:
    "desiredMonthlyIncome input = Fin x" "hoursPerDay input = Fin h" "1 \<le> h"
    "daysPerWeek input = Fin d" "1 \<le> d" "vacationWeeks input = Fin v" "v \<le> 52"
    "monthlyExpenses input = Fin e1" "variableExpenses input = Fin e2"
    "profitMarginPercentage input = Fin m" "m < 100" "taxRegime input \<in> set regimes"
    by (rule valid_input_fields)
  have t: "calculateMonthlyTaxes (Fin x) (taxRegime input) = Fin (spec_monthlyTaxes (taxRegime input) x)"
    using f(12) by (rule monthlyTaxes_refines)
  from f(11) have m: "m \<noteq> 100" by simp
  note c = calculate_finite [OF f(1,2,4,6,8,9,10) m t]
  from assms(2) f(6,7) have "v < 52" by simp
  with f(3,5) have w: "h * (d * (52 - v) / 12) \<noteq> 0" by simp
  obtain r where r: "monthlyRate (calculate input) = Fin r" using c(1) by blast
  have "js_mul (hourlyRate (calculate input)) (unroundedHoursPerMonth input) = monthlyRate (calculate input)"
    using w by (simp add: c(2) c(3) r)
  with c(4) show ?thesis by simp
qed

text \<open>The amended C7 at the scenario, whose 120 hours a month are a whole number.\<close>

theorem C7_unrounded_hours_witness:
  "valid_input scenario_MEI \<and> vacationWeeks scenario_MEI \<noteq> Fin 52 \<and>
   js_round (unroundedHoursPerMonth scenario_MEI) = unroundedHoursPerMonth scenario_MEI \<and>
   unroundedHoursPerMonth scenario_MEI = Fin 120 \<and>
   js_mul (hourlyRate (calculate scenario_MEI)) (workingHoursPerMonth (calculate scenario_MEI))
     = monthlyRate (calculate scenario_MEI)"
proof -
  have v: "valid_input scenario_MEI"
    by (simp add: valid_input_def regimes_def scenario_MEI_def)
  have n: "vacationWeeks scenario_MEI \<noteq> Fin 52"
    by (simp add: scenario_MEI_def)
  have u: "unroundedHoursPerMonth scenario_MEI = Fin 120"
    by (simp add: unroundedHoursPerMonth_def scenario_MEI_def js_sub_def)
  then have r: "js_round (unroundedHoursPerMonth scenario_MEI) = unroundedHoursPerMonth scenario_MEI"
    by simp
  from C7_unrounded_hours [OF v n] v n u r show ?thesis by simp
qed

end
